theory Spec2Isabelle
  imports Main
begin

section \<open>The classes declared in QGst/event.h\<close>

text \<open>
  The header declares, in namespace \<open>QGst\<close>, the class \<open>Event\<close> and one class for each
  kind of event. A class declaration is kept as data: its name, its base class, the C class
  named in its wrapper macro (\<open>QGST_WRAPPER(Event)\<close> wraps the class of the same name,
  \<open>QGST_WRAPPER_DIFFERENT_C_CLASS(FlushStartEvent, Event)\<close> names it), and its member
  functions in the order of the header.
\<close>

datatype access = Public | Protected

record member =
  mname :: string
  is_static :: bool
  is_virtual :: bool
  visibility :: access

definition static_fn :: "string \<Rightarrow> member" where
  "static_fn n = \<lparr>mname = n, is_static = True, is_virtual = False, visibility = Public\<rparr>"

definition instance_fn :: "string \<Rightarrow> member" where
  "instance_fn n = \<lparr>mname = n, is_static = False, is_virtual = False, visibility = Public\<rparr>"

definition protected_virtual :: "string \<Rightarrow> member" where
  "protected_virtual n =
     \<lparr>mname = n, is_static = False, is_virtual = True, visibility = Protected\<rparr>"

record class_decl =
  cname :: string
  base :: string
  c_class :: string
  members :: "member list"

definition Event :: class_decl where
  "Event = \<lparr>cname = ''Event'', base = ''MiniObject'', c_class = ''Event'',
     members = [static_fn ''create'',
                instance_fn ''source'', instance_fn ''timestamp'', instance_fn ''type'', instance_fn ''typeName'',
                instance_fn ''structure'', instance_fn ''structure'',
                instance_fn ''sequenceNumber'', instance_fn ''setSequenceNumber'',
                instance_fn ''copy'',
                protected_virtual ''ref'', protected_virtual ''unref'']\<rparr>"

definition FlushStartEvent :: class_decl where
  "FlushStartEvent = \<lparr>cname = ''FlushStartEvent'', base = ''Event'', c_class = ''Event'',
     members = [static_fn ''create'']\<rparr>"

definition FlushStopEvent :: class_decl where
  "FlushStopEvent = \<lparr>cname = ''FlushStopEvent'', base = ''Event'', c_class = ''Event'',
     members = [static_fn ''create'']\<rparr>"

definition EosEvent :: class_decl where
  "EosEvent = \<lparr>cname = ''EosEvent'', base = ''Event'', c_class = ''Event'',
     members = [static_fn ''create'']\<rparr>"

definition NewSegmentEvent :: class_decl where
  "NewSegmentEvent = \<lparr>cname = ''NewSegmentEvent'', base = ''Event'', c_class = ''Event'',
     members = [static_fn ''create'',
                instance_fn ''isUpdate'', instance_fn ''rate'', instance_fn ''appliedRate'', instance_fn ''format'',
                instance_fn ''start'', instance_fn ''stop'', instance_fn ''position'']\<rparr>"

definition BufferSizeEvent :: class_decl where
  "BufferSizeEvent = \<lparr>cname = ''BufferSizeEvent'', base = ''Event'', c_class = ''Event'',
     members = [static_fn ''create'',
                instance_fn ''format'', instance_fn ''minSize'', instance_fn ''maxSize'',
                instance_fn ''isAsync'']\<rparr>"

definition SinkMessageEvent :: class_decl where
  "SinkMessageEvent = \<lparr>cname = ''SinkMessageEvent'', base = ''Event'', c_class = ''Event'',
     members = [static_fn ''create'', instance_fn ''message'']\<rparr>"

definition QosEvent :: class_decl where
  "QosEvent = \<lparr>cname = ''QosEvent'', base = ''Event'', c_class = ''Event'',
     members = [static_fn ''create'',
                instance_fn ''proportion'', instance_fn ''diff'', instance_fn ''timestamp'']\<rparr>"

definition SeekEvent :: class_decl where
  "SeekEvent = \<lparr>cname = ''SeekEvent'', base = ''Event'', c_class = ''Event'',
     members = [static_fn ''create'',
                instance_fn ''rate'', instance_fn ''format'', instance_fn ''flags'', instance_fn ''startType'',
                instance_fn ''start'', instance_fn ''stopType'', instance_fn ''stop'']\<rparr>"

definition NavigationEvent :: class_decl where
  "NavigationEvent = \<lparr>cname = ''NavigationEvent'', base = ''Event'', c_class = ''Event'',
     members = [static_fn ''create'']\<rparr>"

definition LatencyEvent :: class_decl where
  "LatencyEvent = \<lparr>cname = ''LatencyEvent'', base = ''Event'', c_class = ''Event'',
     members = [static_fn ''create'', instance_fn ''latency'']\<rparr>"

definition StepEvent :: class_decl where
  "StepEvent = \<lparr>cname = ''StepEvent'', base = ''Event'', c_class = ''Event'',
     members = [static_fn ''create'',
                instance_fn ''format'', instance_fn ''amount'', instance_fn ''rate'', instance_fn ''flush'',
                instance_fn ''intermediate'']\<rparr>"

text \<open>The classes of the header, in the order of their declarations.\<close>

definition classes :: "class_decl list" where
  "classes = [Event, FlushStartEvent, FlushStopEvent, EosEvent, NewSegmentEvent,
              BufferSizeEvent, SinkMessageEvent, QosEvent, SeekEvent, NavigationEvent,
              LatencyEvent, StepEvent]"

text \<open>The classes that derive from \<open>Event\<close>.\<close>

definition event_subclasses :: "class_decl list" where
  "event_subclasses = filter (\<lambda>c. base c = ''Event'') classes"

text \<open>The name of a class as it is written outside the namespace.\<close>

definition qualified_name :: "class_decl \<Rightarrow> string" where
  "qualified_name c = ''QGst::'' @ cname c"

definition has_static_create :: "class_decl \<Rightarrow> bool" where
  "has_static_create c = (static_fn ''create'' \<in> set (members c))"

text \<open>
  Member lookup as C++ does it for a call \<open>c.m()\<close>: the class itself first, then its
  base, and so on. A base that the header does not declare (\<open>MiniObject\<close>) ends the
  walk with no result; the bound \<open>n\<close> is the number of base-class steps allowed.
\<close>

definition find_class :: "string \<Rightarrow> class_decl option" where
  "find_class n = find (\<lambda>c. cname c = n) classes"

definition declares :: "class_decl \<Rightarrow> string \<Rightarrow> bool" where
  "declares c m = (m \<in> mname ` set (members c))"

fun declaring_class :: "nat \<Rightarrow> string \<Rightarrow> string \<Rightarrow> string option" where
  "declaring_class 0 c m =
     (case find_class c of
        None \<Rightarrow> None
      | Some d \<Rightarrow> if declares d m then Some c else None)"
| "declaring_class (Suc n) c m =
     (case find_class c of
        None \<Rightarrow> None
      | Some d \<Rightarrow> if declares d m then Some c else declaring_class n (base d) m)"

section \<open>The registrations at the end of the header\<close>

text \<open>
  Each line \<open>QGST_REGISTER_EVENT_SUBCLASS(TYPE)\<close> expands to three template
  specialisations. \<open>CanConvertTo CLASS EVTTYPE\<close> stands for
  \<open>QGlib::Private::CanConvertTo<CLASS>\<close>, whose \<open>from\<close> compares with \<open>EVTTYPE\<close>;
  \<open>CanConvertFrom P\<close> for \<open>QGlib::Private::CanConvertFrom<P>\<close>; \<open>ValueImpl P\<close> for
  \<open>QGlib::ValueImpl<P>\<close>. The token pasting \<open>##\<close> of the macros is string
  concatenation.
\<close>

datatype specialization =
    CanConvertTo string string
  | CanConvertFrom string
  | ValueImpl string

definition QGST_EVENT_SUBCLASS_REGISTER_CONVERTERS :: "string \<Rightarrow> string \<Rightarrow> specialization list"
  where
  "QGST_EVENT_SUBCLASS_REGISTER_CONVERTERS CLASS EVTTYPE =
     [CanConvertTo CLASS EVTTYPE, CanConvertFrom (CLASS @ ''Ptr'')]"

definition QGST_EVENT_SUBCLASS_REGISTER_VALUEIMPL :: "string \<Rightarrow> string \<Rightarrow> specialization list"
  where
  "QGST_EVENT_SUBCLASS_REGISTER_VALUEIMPL CLASSPTR EVTTYPE = [ValueImpl CLASSPTR]"

definition QGST_REGISTER_EVENT_SUBCLASS :: "string \<Rightarrow> specialization list" where
  "QGST_REGISTER_EVENT_SUBCLASS TYP =
     QGST_EVENT_SUBCLASS_REGISTER_CONVERTERS (''QGst::'' @ TYP @ ''Event'') (''QGst::Event'' @ TYP)
     @ QGST_EVENT_SUBCLASS_REGISTER_VALUEIMPL (''QGst::'' @ TYP @ ''EventPtr'')
         (''QGst::Event'' @ TYP)"

text \<open>
  The arguments of the eleven \<open>QGST_REGISTER_EVENT_SUBCLASS\<close> lines, in order; the line
  for \<open>Tag\<close> is commented out in the header.
\<close>

definition registrations :: "string list" where
  "registrations = [''FlushStart'', ''FlushStop'', ''Eos'', ''NewSegment'', ''BufferSize'',
                    ''SinkMessage'', ''Qos'', ''Seek'', ''Navigation'', ''Latency'', ''Step'']"

definition specializations :: "specialization list" where
  "specializations = concat (map QGST_REGISTER_EVENT_SUBCLASS registrations)"

primrec CanConvertTo_entry :: "specialization \<Rightarrow> (string \<times> string) list" where
  "CanConvertTo_entry (CanConvertTo CLASS EVTTYPE) = [(CLASS, EVTTYPE)]"
| "CanConvertTo_entry (CanConvertFrom P) = []"
| "CanConvertTo_entry (ValueImpl P) = []"

primrec CanConvertFrom_entry :: "specialization \<Rightarrow> string list" where
  "CanConvertFrom_entry (CanConvertTo CLASS EVTTYPE) = []"
| "CanConvertFrom_entry (CanConvertFrom P) = [P]"
| "CanConvertFrom_entry (ValueImpl P) = []"

primrec ValueImpl_entry :: "specialization \<Rightarrow> string list" where
  "ValueImpl_entry (CanConvertTo CLASS EVTTYPE) = []"
| "ValueImpl_entry (CanConvertFrom P) = []"
| "ValueImpl_entry (ValueImpl P) = [P]"

text \<open>The classes with a generated \<open>CanConvertTo\<close>, each with the event type it tests.\<close>

definition CanConvertTo_table :: "(string \<times> string) list" where
  "CanConvertTo_table = concat (map CanConvertTo_entry specializations)"

text \<open>The pointer types with a generated \<open>CanConvertFrom\<close>, and with a \<open>ValueImpl\<close>.\<close>

definition CanConvertFrom_types :: "string list" where
  "CanConvertFrom_types = concat (map CanConvertFrom_entry specializations)"

definition ValueImpl_types :: "string list" where
  "ValueImpl_types = concat (map ValueImpl_entry specializations)"

section \<open>The generated hooks\<close>

text \<open>
  The bodies of the generated functions call into QGlib and into the native library, whose
  code is not part of the header. What they call is a parameter of the model:
  \<^item> \<open>fromInstance\<close> is \<open>Type::fromInstance\<close>, the run-time type of an instance pointer;
  \<^item> \<open>isA a b\<close> is \<open>a.isA(b)\<close> on two \<open>Type\<close>s;
  \<^item> \<open>GetType_Event\<close> is \<open>GetType<QGst::Event>()\<close>;
  \<^item> \<open>wrapped_type p\<close> is \<open>QGst::EventPtr::wrap(static_cast<GstEvent*>(p))->type()\<close>:
    the event type read through the pointer, \<open>None\<close> where the pointer is not one to a
    native event and the read has no defined result;
  \<^item> \<open>enumerator n\<close> is the value of the enumerator of \<open>QGst::EventType\<close> named \<open>n\<close>
    (the enumeration is declared in another header);
  \<^item> \<open>ValueImpl_EventPtr_set\<close> is \<open>ValueImpl<QGst::EventPtr>::set\<close>, declared by
    \<open>QGLIB_REGISTER_VALUEIMPL(QGst::EventPtr)\<close>; it takes the value and the handle and gives
    the value as it is afterwards.
  Instance pointers and handles are of type \<open>'p\<close>, \<open>Type\<close>s of type \<open>'t\<close>, values of
  type \<open>'v\<close>.
\<close>

record ('p, 't, 'v) engine =
  fromInstance :: "'p \<Rightarrow> 't"
  isA :: "'t \<Rightarrow> 't \<Rightarrow> bool"
  GetType_Event :: "'t"
  wrapped_type :: "'p \<Rightarrow> int option"
  enumerator :: "string \<Rightarrow> int"
  ValueImpl_EventPtr_set :: "'v \<Rightarrow> 'p \<Rightarrow> 'v"

text \<open>
  What a call of a generated function does: it returns, or it has undefined behaviour, or
  the header generates no such specialisation (the primary template, which is not in this
  header, is used).
\<close>

datatype 'a outcome = Returns 'a | Undefined_behaviour | Not_specialized

text \<open>
  The body of \<open>CanConvertTo<CLASS>::from(void *instance)\<close> for the macro argument
  \<open>EVTTYPE\<close>. The operator \<open>&&\<close> evaluates its right operand only if the left one is
  true.
\<close>

definition from_body :: "('p, 't, 'v) engine \<Rightarrow> string \<Rightarrow> 'p \<Rightarrow> bool outcome" where
  "from_body g EVTTYPE instance =
     (if isA g (fromInstance g instance) (GetType_Event g)
      then (case wrapped_type g instance of
              None \<Rightarrow> Undefined_behaviour
            | Some t \<Rightarrow> Returns (t = enumerator g EVTTYPE))
      else Returns False)"

definition CanConvertTo_from :: "('p, 't, 'v) engine \<Rightarrow> string \<Rightarrow> 'p \<Rightarrow> bool outcome" where
  "CanConvertTo_from g CLASS instance =
     (case map_of CanConvertTo_table CLASS of
        None \<Rightarrow> Not_specialized
      | Some EVTTYPE \<Rightarrow> from_body g EVTTYPE instance)"

text \<open>\<open>CanConvertFrom<CLASS##Ptr>::to(Type t)\<close>.\<close>

definition CanConvertFrom_to :: "('p, 't, 'v) engine \<Rightarrow> string \<Rightarrow> 't \<Rightarrow> bool outcome" where
  "CanConvertFrom_to g CLASSPTR t =
     (if CLASSPTR \<in> set CanConvertFrom_types then Returns (isA g (GetType_Event g) t)
      else Not_specialized)"

text \<open>
  \<open>ValueImpl<CLASSPTR>::set(ValueBase & value, const CLASSPTR & data)\<close>; the result is
  the value after the call. \<open>ValueImpl<QGst::EventPtr>\<close> is the one declared by
  \<open>QGLIB_REGISTER_VALUEIMPL(QGst::EventPtr)\<close>. The call converts \<open>data\<close> from
  \<open>CLASSPTR\<close> to \<open>QGst::EventPtr\<close>; both are handles to the same native object, and
  both are of type \<open>'p\<close> here.
\<close>

definition ValueImpl_set :: "('p, 't, 'v) engine \<Rightarrow> string \<Rightarrow> 'v \<Rightarrow> 'p \<Rightarrow> 'v outcome" where
  "ValueImpl_set g CLASSPTR value data =
     (if CLASSPTR = ''QGst::EventPtr'' then Returns (ValueImpl_EventPtr_set g value data)
      else if CLASSPTR \<in> set ValueImpl_types
      then Returns (ValueImpl_EventPtr_set g value data)
      else Not_specialized)"

text \<open>
  An engine in which every instance whose run-time type is-a \<open>QGst::Event\<close> is a native
  event, so that its event type can be read.
\<close>

definition events_readable :: "('p, 't, 'v) engine \<Rightarrow> bool" where
  "events_readable g =
     (\<forall>p. isA g (fromInstance g p) (GetType_Event g) \<longrightarrow> wrapped_type g p \<noteq> None)"

subsection \<open>A small engine to run the hooks on\<close>

text \<open>
  Types: \<open>1\<close> is the mini-object type, \<open>2\<close> the event type derived from it, \<open>3\<close> an
  unrelated type, \<open>0\<close> the invalid type. Pointers: \<open>1\<close> is an end-of-stream event,
  \<open>2\<close> a seek event, \<open>3\<close> an object of type \<open>3\<close>, every other pointer has the invalid
  type. A value holds at most one boxed pointer.
\<close>

definition sample_enumerators :: "(string \<times> int) list" where
  "sample_enumerators =
     [(''QGst::EventFlushStart'', 1), (''QGst::EventFlushStop'', 2), (''QGst::EventEos'', 3),
      (''QGst::EventNewSegment'', 4), (''QGst::EventTag'', 5), (''QGst::EventBufferSize'', 6),
      (''QGst::EventSinkMessage'', 7), (''QGst::EventQos'', 8), (''QGst::EventSeek'', 9),
      (''QGst::EventNavigation'', 10), (''QGst::EventLatency'', 11), (''QGst::EventStep'', 12)]"

definition sample_engine :: "(nat, nat, nat option) engine" where
  "sample_engine =
     \<lparr>fromInstance = (\<lambda>p. if p = 1 \<or> p = 2 then 2 else if p = 3 then 3 else 0),
      isA = (\<lambda>a b. a \<noteq> 0 \<and> (a = b \<or> (a = 2 \<and> b = 1))),
      GetType_Event = 2,
      wrapped_type = (\<lambda>p. if p = 1 then Some 3 else if p = 2 then Some 9 else None),
      enumerator = (\<lambda>n. case map_of sample_enumerators n of None \<Rightarrow> 0 | Some v \<Rightarrow> v),
      ValueImpl_EventPtr_set = (\<lambda>v d. Some d)\<rparr>"

section \<open>What the expansion of the macros gives\<close>

lemmas expansion_defs = specializations_def registrations_def
  QGST_REGISTER_EVENT_SUBCLASS_def QGST_EVENT_SUBCLASS_REGISTER_CONVERTERS_def
  QGST_EVENT_SUBCLASS_REGISTER_VALUEIMPL_def

lemmas class_defs = Event_def FlushStartEvent_def FlushStopEvent_def EosEvent_def
  NewSegmentEvent_def BufferSizeEvent_def SinkMessageEvent_def QosEvent_def SeekEvent_def
  NavigationEvent_def LatencyEvent_def StepEvent_def

lemma CanConvertTo_table_eq:
  "CanConvertTo_table =
    [(''QGst::FlushStartEvent'', ''QGst::EventFlushStart''),
     (''QGst::FlushStopEvent'', ''QGst::EventFlushStop''),
     (''QGst::EosEvent'', ''QGst::EventEos''),
     (''QGst::NewSegmentEvent'', ''QGst::EventNewSegment''),
     (''QGst::BufferSizeEvent'', ''QGst::EventBufferSize''),
     (''QGst::SinkMessageEvent'', ''QGst::EventSinkMessage''),
     (''QGst::QosEvent'', ''QGst::EventQos''),
     (''QGst::SeekEvent'', ''QGst::EventSeek''),
     (''QGst::NavigationEvent'', ''QGst::EventNavigation''),
     (''QGst::LatencyEvent'', ''QGst::EventLatency''),
     (''QGst::StepEvent'', ''QGst::EventStep'')]"
  by (simp add: CanConvertTo_table_def expansion_defs)

lemma CanConvertFrom_types_eq:
  "CanConvertFrom_types =
    [''QGst::FlushStartEventPtr'', ''QGst::FlushStopEventPtr'', ''QGst::EosEventPtr'',
     ''QGst::NewSegmentEventPtr'', ''QGst::BufferSizeEventPtr'', ''QGst::SinkMessageEventPtr'',
     ''QGst::QosEventPtr'', ''QGst::SeekEventPtr'', ''QGst::NavigationEventPtr'',
     ''QGst::LatencyEventPtr'', ''QGst::StepEventPtr'']"
  by (simp add: CanConvertFrom_types_def expansion_defs)

lemma ValueImpl_types_eq: "ValueImpl_types = CanConvertFrom_types"
  by (simp add: ValueImpl_types_def CanConvertFrom_types_def expansion_defs)

lemma event_subclasses_eq:
  "event_subclasses = [FlushStartEvent, FlushStopEvent, EosEvent, NewSegmentEvent,
     BufferSizeEvent, SinkMessageEvent, QosEvent, SeekEvent, NavigationEvent,
     LatencyEvent, StepEvent]"
  by (simp add: event_subclasses_def classes_def class_defs)

lemma distinct_classes: "distinct (map fst CanConvertTo_table)"
  by (simp add: CanConvertTo_table_eq)

lemma distinct_event_types: "distinct (map snd CanConvertTo_table)"
  by (simp add: CanConvertTo_table_eq)

lemma registered_lookup:
  "(CLASS, EVTTYPE) \<in> set CanConvertTo_table \<Longrightarrow>
   map_of CanConvertTo_table CLASS = Some EVTTYPE"
  using distinct_classes by (rule map_of_is_SomeI)

lemma registered_event_type_determines_class:
  assumes "(C1, T) \<in> set CanConvertTo_table" and "(C2, T) \<in> set CanConvertTo_table"
  shows "C1 = C2"
proof -
  have "inj_on snd (set CanConvertTo_table)"
    using distinct_event_types by (simp add: distinct_map)
  then show ?thesis
    using assms inj_onD [of snd "set CanConvertTo_table" "(C1, T)" "(C2, T)"] by simp
qed

section \<open>The dynamic-cast hook\<close>

lemma from_body_True:
  "from_body g EVTTYPE p = Returns True \<longleftrightarrow>
     isA g (fromInstance g p) (GetType_Event g) \<and> wrapped_type g p = Some (enumerator g EVTTYPE)"
  by (auto simp: from_body_def split: option.splits)

lemma from_body_readable:
  "events_readable g \<Longrightarrow>
   from_body g EVTTYPE p =
     Returns (isA g (fromInstance g p) (GetType_Event g) \<and>
              wrapped_type g p = Some (enumerator g EVTTYPE))"
  by (auto simp: from_body_def events_readable_def split: option.splits)

lemma sample_engine_readable: "events_readable sample_engine"
  by (simp add: events_readable_def sample_engine_def)

lemma sample_enumerators_distinct:
  "inj_on (enumerator sample_engine) (snd ` set CanConvertTo_table)"
  by (simp add: CanConvertTo_table_eq sample_engine_def sample_enumerators_def)

text \<open>
  C1. For a class \<open>CLASS\<close> registered with the event type \<open>EVTTYPE\<close> and any instance
  pointer \<open>p\<close>, the generated \<open>CanConvertTo<CLASS>::from(p)\<close> returns true exactly when
  the run-time type of \<open>p\<close> is-a \<open>QGst::Event\<close> and the type of the wrapped event is
  \<open>EVTTYPE\<close>. Where every instance that is-a \<open>QGst::Event\<close> is a native event whose type
  can be read, the call returns in every case, and returns false otherwise: the event type
  is read only behind the is-a test.
\<close>

theorem CanConvertTo_from_correct:
  assumes "(CLASS, EVTTYPE) \<in> set CanConvertTo_table"
  shows "(CanConvertTo_from g CLASS p = Returns True \<longleftrightarrow>
            isA g (fromInstance g p) (GetType_Event g) \<and>
            wrapped_type g p = Some (enumerator g EVTTYPE))
       \<and> (events_readable g \<longrightarrow>
            CanConvertTo_from g CLASS p =
              Returns (isA g (fromInstance g p) (GetType_Event g) \<and>
                       wrapped_type g p = Some (enumerator g EVTTYPE)))"
proof -
  have "map_of CanConvertTo_table CLASS = Some EVTTYPE"
    using assms by (rule registered_lookup)
  then have "CanConvertTo_from g CLASS p = from_body g EVTTYPE p"
    by (simp add: CanConvertTo_from_def)
  then show ?thesis
    by (simp add: from_body_True from_body_readable)
qed

theorem CanConvertTo_from_correct_witness:
  "(''QGst::EosEvent'', ''QGst::EventEos'') \<in> set CanConvertTo_table
   \<and> events_readable sample_engine
   \<and> CanConvertTo_from sample_engine ''QGst::EosEvent'' 1 = Returns True
   \<and> CanConvertTo_from sample_engine ''QGst::EosEvent'' 2 = Returns False
   \<and> CanConvertTo_from sample_engine ''QGst::EosEvent'' 3 = Returns False
   \<and> CanConvertTo_from sample_engine ''QGst::EosEvent'' 0 = Returns False"
proof -
  have r: "(''QGst::EosEvent'', ''QGst::EventEos'') \<in> set CanConvertTo_table"
    by (simp add: CanConvertTo_table_eq)
  have e: "enumerator sample_engine ''QGst::EventEos'' = 3"
    by (simp add: sample_engine_def sample_enumerators_def)
  have "CanConvertTo_from sample_engine ''QGst::EosEvent'' p =
          Returns (isA sample_engine (fromInstance sample_engine p)
                     (GetType_Event sample_engine) \<and>
                   wrapped_type sample_engine p = Some 3)" for p
    using CanConvertTo_from_correct [OF r, of sample_engine p] sample_engine_readable e
    by simp
  then show ?thesis
    using r sample_engine_readable by (simp add: sample_engine_def)
qed

text \<open>
  C8. Two different registered classes are registered with different event types, and
  where the enumerators of the registered event types have pairwise different values, no
  instance pointer makes the \<open>from\<close> of both classes return true.
\<close>

theorem CanConvertTo_from_exclusive:
  assumes r1: "(C1, T1) \<in> set CanConvertTo_table"
      and r2: "(C2, T2) \<in> set CanConvertTo_table"
      and ne: "C1 \<noteq> C2"
      and vals: "inj_on (enumerator g) (snd ` set CanConvertTo_table)"
  shows "T1 \<noteq> T2 \<and>
         \<not> (CanConvertTo_from g C1 p = Returns True \<and> CanConvertTo_from g C2 p = Returns True)"
proof -
  have names: "T1 \<noteq> T2"
    using r1 r2 ne registered_event_type_determines_class by blast
  have "\<not> (CanConvertTo_from g C1 p = Returns True \<and> CanConvertTo_from g C2 p = Returns True)"
  proof
    assume both: "CanConvertTo_from g C1 p = Returns True \<and>
                  CanConvertTo_from g C2 p = Returns True"
    have "from_body g T1 p = Returns True"
      using both registered_lookup [OF r1] by (simp add: CanConvertTo_from_def)
    then have t1: "wrapped_type g p = Some (enumerator g T1)"
      by (simp add: from_body_True)
    have "from_body g T2 p = Returns True"
      using both registered_lookup [OF r2] by (simp add: CanConvertTo_from_def)
    then have t2: "wrapped_type g p = Some (enumerator g T2)"
      by (simp add: from_body_True)
    from t1 t2 have "enumerator g T1 = enumerator g T2" by simp
    moreover have "T1 \<in> snd ` set CanConvertTo_table" "T2 \<in> snd ` set CanConvertTo_table"
      using r1 r2 by force+
    ultimately have "T1 = T2"
      using vals inj_onD [of "enumerator g" "snd ` set CanConvertTo_table" T1 T2] by simp
    with names show False by simp
  qed
  with names show ?thesis by simp
qed

theorem CanConvertTo_from_exclusive_witness:
  "(''QGst::EosEvent'', ''QGst::EventEos'') \<in> set CanConvertTo_table
   \<and> (''QGst::SeekEvent'', ''QGst::EventSeek'') \<in> set CanConvertTo_table
   \<and> ''QGst::EosEvent'' \<noteq> ''QGst::SeekEvent''
   \<and> inj_on (enumerator sample_engine) (snd ` set CanConvertTo_table)
   \<and> CanConvertTo_from sample_engine ''QGst::EosEvent'' 1 = Returns True
   \<and> CanConvertTo_from sample_engine ''QGst::SeekEvent'' 1 \<noteq> Returns True"
proof -
  have r1: "(''QGst::EosEvent'', ''QGst::EventEos'') \<in> set CanConvertTo_table"
    and r2: "(''QGst::SeekEvent'', ''QGst::EventSeek'') \<in> set CanConvertTo_table"
    by (simp_all add: CanConvertTo_table_eq)
  have ne: "''QGst::EosEvent'' \<noteq> ''QGst::SeekEvent''" by simp
  have eos: "CanConvertTo_from sample_engine ''QGst::EosEvent'' 1 = Returns True"
    using registered_lookup [OF r1]
    by (simp add: CanConvertTo_from_def from_body_def sample_engine_def sample_enumerators_def)
  show ?thesis
    using CanConvertTo_from_exclusive [OF r1 r2 ne sample_enumerators_distinct, of 1]
      r1 r2 sample_enumerators_distinct eos
    by simp
qed

section \<open>Unboxing and boxing\<close>

text \<open>
  C5. For every registered pointer type \<open>P\<close> and every target type \<open>t\<close>, the generated
  \<open>CanConvertFrom<P>::to(t)\<close> returns \<open>GetType<QGst::Event>().isA(t)\<close>; two registered
  pointer types give the same answer for the same \<open>t\<close>.
\<close>

theorem CanConvertFrom_to_subclass_independent:
  assumes "P \<in> set CanConvertFrom_types" and "P' \<in> set CanConvertFrom_types"
  shows "CanConvertFrom_to g P t = Returns (isA g (GetType_Event g) t)
       \<and> CanConvertFrom_to g P t = CanConvertFrom_to g P' t"
  using assms by (simp add: CanConvertFrom_to_def)

theorem CanConvertFrom_to_subclass_independent_witness:
  "''QGst::SeekEventPtr'' \<in> set CanConvertFrom_types
   \<and> ''QGst::StepEventPtr'' \<in> set CanConvertFrom_types
   \<and> CanConvertFrom_to sample_engine ''QGst::SeekEventPtr'' 1 = Returns True
   \<and> CanConvertFrom_to sample_engine ''QGst::StepEventPtr'' 1 = Returns True
   \<and> CanConvertFrom_to sample_engine ''QGst::SeekEventPtr'' 3 = Returns False
   \<and> CanConvertFrom_to sample_engine ''QGst::StepEventPtr'' 3 = Returns False"
proof -
  have m: "''QGst::SeekEventPtr'' \<in> set CanConvertFrom_types"
    and m': "''QGst::StepEventPtr'' \<in> set CanConvertFrom_types"
    by (simp_all add: CanConvertFrom_types_eq)
  show ?thesis
    using CanConvertFrom_to_subclass_independent [OF m m', of sample_engine 1]
      CanConvertFrom_to_subclass_independent [OF m' m, of sample_engine 1]
      CanConvertFrom_to_subclass_independent [OF m m', of sample_engine 3]
      CanConvertFrom_to_subclass_independent [OF m' m, of sample_engine 3] m m'
    by (simp add: sample_engine_def)
qed

text \<open>
  C3. For every registered pointer type \<open>P\<close>, every value \<open>v\<close> and handle \<open>d\<close>, the
  generated \<open>ValueImpl<P>::set(v, d)\<close> does what \<open>ValueImpl<QGst::EventPtr>::set(v, d)\<close>
  does: it leaves the value as that call leaves it.
\<close>

theorem ValueImpl_set_forwards:
  assumes "P \<in> set ValueImpl_types"
  shows "ValueImpl_set g P v d = ValueImpl_set g ''QGst::EventPtr'' v d
       \<and> ValueImpl_set g P v d = Returns (ValueImpl_EventPtr_set g v d)"
  using assms by (simp add: ValueImpl_set_def)

theorem ValueImpl_set_forwards_witness:
  "''QGst::QosEventPtr'' \<in> set ValueImpl_types
   \<and> ValueImpl_set sample_engine ''QGst::QosEventPtr'' None 2 = Returns (Some 2)
   \<and> ValueImpl_set sample_engine ''QGst::EventPtr'' None 2 = Returns (Some 2)"
proof -
  have m: "''QGst::QosEventPtr'' \<in> set ValueImpl_types"
    by (simp add: ValueImpl_types_eq CanConvertFrom_types_eq)
  note both = ValueImpl_set_forwards [OF m, of sample_engine None 2]
  have fwd: "ValueImpl_set sample_engine ''QGst::QosEventPtr'' None 2 =
               ValueImpl_set sample_engine ''QGst::EventPtr'' None 2"
    using both by (rule conjunct1)
  have ret: "ValueImpl_set sample_engine ''QGst::QosEventPtr'' None 2 =
               Returns (ValueImpl_EventPtr_set sample_engine None 2)"
    using both by (rule conjunct2)
  have "ValueImpl_EventPtr_set sample_engine None 2 = Some (2::nat)"
    by (simp add: sample_engine_def)
  with ret have sub: "ValueImpl_set sample_engine ''QGst::QosEventPtr'' None 2 = Returns (Some 2)"
    by simp
  with fwd have "ValueImpl_set sample_engine ''QGst::EventPtr'' None 2 = Returns (Some 2)"
    by simp
  with m sub show ?thesis by simp
qed

section \<open>The family of event classes\<close>

text \<open>
  C4. The header declares exactly eleven classes deriving from \<open>Event\<close>: FlushStart,
  FlushStop, Eos, NewSegment, BufferSize, SinkMessage, Qos, Seek, Navigation, Latency and
  Step; they are all the classes of the header but \<open>Event\<close> itself, and each has a static
  \<open>create\<close>. The subclass registrations generate a \<open>CanConvertTo\<close>, a \<open>CanConvertFrom\<close>
  and a \<open>ValueImpl\<close> for each of the eleven and nothing else; there is no class, no
  converter and no value implementation for the Tag event type.
\<close>

theorem event_family:
  "map cname event_subclasses =
     [''FlushStartEvent'', ''FlushStopEvent'', ''EosEvent'', ''NewSegmentEvent'',
      ''BufferSizeEvent'', ''SinkMessageEvent'', ''QosEvent'', ''SeekEvent'',
      ''NavigationEvent'', ''LatencyEvent'', ''StepEvent'']
   \<and> length event_subclasses = 11
   \<and> classes = Event # event_subclasses
   \<and> list_all has_static_create event_subclasses
   \<and> map fst CanConvertTo_table = map qualified_name event_subclasses
   \<and> CanConvertFrom_types = map (\<lambda>c. qualified_name c @ ''Ptr'') event_subclasses
   \<and> ValueImpl_types = map (\<lambda>c. qualified_name c @ ''Ptr'') event_subclasses
   \<and> length specializations = 3 * length event_subclasses
   \<and> ''TagEvent'' \<notin> cname ` set classes
   \<and> ''QGst::TagEvent'' \<notin> fst ` set CanConvertTo_table
   \<and> ''QGst::EventTag'' \<notin> snd ` set CanConvertTo_table
   \<and> ''QGst::TagEventPtr'' \<notin> set CanConvertFrom_types
   \<and> ''QGst::TagEventPtr'' \<notin> set ValueImpl_types"
proof (intro conjI)
  show "map cname event_subclasses =
     [''FlushStartEvent'', ''FlushStopEvent'', ''EosEvent'', ''NewSegmentEvent'',
      ''BufferSizeEvent'', ''SinkMessageEvent'', ''QosEvent'', ''SeekEvent'',
      ''NavigationEvent'', ''LatencyEvent'', ''StepEvent'']"
    by (simp add: event_subclasses_eq class_defs)
  show "length event_subclasses = 11"
    by (simp add: event_subclasses_eq)
  show "classes = Event # event_subclasses"
    by (simp add: event_subclasses_eq classes_def)
  show "list_all has_static_create event_subclasses"
    by (simp add: event_subclasses_eq class_defs has_static_create_def)
  show "map fst CanConvertTo_table = map qualified_name event_subclasses"
    by (simp add: event_subclasses_eq class_defs CanConvertTo_table_eq qualified_name_def)
  show "CanConvertFrom_types = map (\<lambda>c. qualified_name c @ ''Ptr'') event_subclasses"
    by (simp add: event_subclasses_eq class_defs CanConvertFrom_types_eq qualified_name_def)
  show "ValueImpl_types = map (\<lambda>c. qualified_name c @ ''Ptr'') event_subclasses"
    by (simp add: event_subclasses_eq class_defs ValueImpl_types_eq CanConvertFrom_types_eq
        qualified_name_def)
  show "length specializations = 3 * length event_subclasses"
    by (simp add: event_subclasses_eq expansion_defs)
  show "''TagEvent'' \<notin> cname ` set classes"
    by (simp add: classes_def class_defs)
  show "''QGst::TagEvent'' \<notin> fst ` set CanConvertTo_table"
    by (simp add: CanConvertTo_table_eq)
  show "''QGst::EventTag'' \<notin> snd ` set CanConvertTo_table"
    by (simp add: CanConvertTo_table_eq)
  show "''QGst::TagEventPtr'' \<notin> set CanConvertFrom_types"
    by (simp add: CanConvertFrom_types_eq)
  show "''QGst::TagEventPtr'' \<notin> set ValueImpl_types"
    by (simp add: ValueImpl_types_eq CanConvertFrom_types_eq)
qed

section \<open>Reference counting through \<open>Event\<close>\<close>

lemma Event_declares_ref: "declares Event ''ref''" "declares Event ''unref''"
  by (simp_all add: declares_def Event_def protected_virtual_def instance_fn_def static_fn_def)

lemma declaring_class_in_Event:
  "declares Event m \<Longrightarrow> declaring_class n ''Event'' m = Some ''Event''"
  by (cases n) (simp_all add: find_class_def classes_def class_defs)

lemma declaring_class_in_subclass:
  assumes "find_class c = Some d" and "base d = ''Event''" and "declares Event m"
  shows "declaring_class (Suc n) c m = Some (if declares d m then c else ''Event'')"
  using assms by (simp add: declaring_class_in_Event)

lemma find_class_classes:
  "list_all (\<lambda>c. find_class (cname c) = Some c) classes"
  by (simp add: find_class_def classes_def class_defs)

lemma subclasses_leave_ref:
  "list_all (\<lambda>c. \<not> declares c ''ref'' \<and> \<not> declares c ''unref'') event_subclasses"
  by (simp add: event_subclasses_eq class_defs declares_def instance_fn_def static_fn_def)

text \<open>
  C7. \<open>Event\<close> derives from \<open>MiniObject\<close> and declares \<open>ref()\<close> and \<open>unref()\<close>
  (protected, virtual); every other class of the header derives from \<open>Event\<close>; and in
  every class of the family, \<open>ref\<close> and \<open>unref\<close> are the ones that \<open>Event\<close> declares:
  no subclass declares its own.
\<close>

theorem refcounted_family:
  "base Event = ''MiniObject''
   \<and> protected_virtual ''ref'' \<in> set (members Event)
   \<and> protected_virtual ''unref'' \<in> set (members Event)
   \<and> classes = Event # event_subclasses
   \<and> list_all (\<lambda>c. base c = ''Event'') event_subclasses
   \<and> list_all (\<lambda>c. declaring_class (length classes) (cname c) ''ref'' = Some ''Event''
                  \<and> declaring_class (length classes) (cname c) ''unref'' = Some ''Event'')
        classes"
proof (intro conjI)
  show "base Event = ''MiniObject''" by (simp add: Event_def)
  show "protected_virtual ''ref'' \<in> set (members Event)" by (simp add: Event_def)
  show "protected_virtual ''unref'' \<in> set (members Event)" by (simp add: Event_def)
  show "classes = Event # event_subclasses" by (simp add: event_subclasses_eq classes_def)
  show "list_all (\<lambda>c. base c = ''Event'') event_subclasses"
    by (simp add: event_subclasses_def list_all_iff)
  have len: "length classes = Suc 11" by (simp add: classes_def)
  have "declaring_class (Suc 11) (cname c) m = Some ''Event''"
    if c: "c \<in> set classes" and m: "m = ''ref'' \<or> m = ''unref''" for c m
  proof (cases "c = Event")
    case True
    then show ?thesis
      using m Event_declares_ref by (auto simp: declaring_class_in_Event Event_def)
  next
    case False
    then have sub: "c \<in> set event_subclasses"
      using c by (simp add: event_subclasses_eq classes_def)
    then have b: "base c = ''Event''" by (simp add: event_subclasses_def)
    have f: "find_class (cname c) = Some c"
      using c find_class_classes by (simp add: list_all_iff)
    have n: "\<not> declares c m"
      using sub m subclasses_leave_ref by (auto simp: list_all_iff)
    have e: "declares Event m" using m Event_declares_ref by auto
    have "declaring_class (Suc 11) (cname c) m =
            Some (if declares c m then cname c else ''Event'')"
      using f b e by (rule declaring_class_in_subclass)
    also have "\<dots> = Some ''Event''" using n by simp
    finally show ?thesis .
  qed
  then show "list_all (\<lambda>c. declaring_class (length classes) (cname c) ''ref'' = Some ''Event''
                  \<and> declaring_class (length classes) (cname c) ''unref'' = Some ''Event'')
        classes"
    by (simp add: len list_all_iff)
qed

end
